theory Spec2Isabelle
  imports Complex_Main
begin

section \<open>The Ecobee climate platform: data model\<close>

text \<open>
  The module \<^verbatim>\<open>homeassistant/components/climate/ecobee.py\<close> wraps one thermostat of the
  vendor's cloud service as a climate entity. The class \<^verbatim>\<open>Thermostat\<close> keeps the index of
  its device, the latest snapshot of the vendor's document for it and the flag
  \<^verbatim>\<open>update_without_throttle\<close>; its properties read the snapshot and its command methods
  call the vendor client and set the flag.

  Python exceptions are values of the type \<open>error\<close>. A method of the class mutates the
  object and the shared service object, so it is a function from the object and the
  service to an outcome with the object and the service as they are left: what was
  written before an exception stays written.
\<close>

datatype error = KeyError string | IndexError | UnboundLocalError string

datatype outcome = Returned | Raised error

text \<open>
  One entry of the snapshot's \<^verbatim>\<open>events\<close> list. The type tag and the running flag are
  always there; the climate reference is optional, and \<^verbatim>\<open>event['holdClimateRef']\<close> on an
  event without it raises \<^verbatim>\<open>KeyError\<close>.
\<close>

record event =
  ev_type :: string
  running :: bool
  holdClimateRef :: "string option"

text \<open>The sections of the vendor's document the adapter reads; temperatures are integers,
  in tenths of a degree.\<close>

record runtime_doc =
  actualTemperature :: int
  desiredHeat :: int
  desiredCool :: int

record settings_doc =
  hvacMode :: string
  holdAction :: string

record snapshot =
  name :: string
  runtime :: runtime_doc
  settings :: settings_doc
  events :: "event list"

text \<open>The object of class \<^verbatim>\<open>Thermostat\<close>. \<^verbatim>\<open>entity_id\<close> is the attribute of the entity base
  class: the constructor leaves it unset, the platform's registry assigns it. The
  attributes \<^verbatim>\<open>_name\<close> and \<^verbatim>\<open>_operation_list\<close>, written once by the constructor and read by
  no method below, are left out.\<close>

record Thermostat =
  thermostat_index :: nat
  thermostat :: snapshot
  hold_temp :: bool
  update_without_throttle :: bool
  entity_id :: "string option"

text \<open>The requests the adapter sends to the vendor client \<^verbatim>\<open>data.ecobee\<close>, with their
  arguments in the order of the call. \<^verbatim>\<open>resume_program\<close> is called with and without its
  second argument.\<close>

datatype api_call =
    Set_climate_hold nat string string
  | Set_hold_temp nat int int string
  | Set_hvac_mode nat string
  | Set_fan_min_on_time nat string
  | Resume_program nat "string option"

datatype log_entry = Log_info string | Log_debug string | Log_error string

text \<open>
  What the adapter shares with the rest of the process: the vendor client's cache of
  snapshots (\<^verbatim>\<open>data.ecobee.thermostats\<close>), the requests sent to the vendor so far, the
  fetches asked of \<^verbatim>\<open>data.update\<close> (\<open>True\<close> for \<^verbatim>\<open>no_throttle=True\<close>), the module's
  logger, the state refreshes asked of the platform (\<^verbatim>\<open>schedule_update_ha_state\<close>, by
  thermostat index), the device lists handed to \<^verbatim>\<open>add_devices\<close> and the services
  registered with \<^verbatim>\<open>hass.services\<close>.
\<close>

record world =
  thermostats :: "snapshot list"
  calls :: "api_call list"
  fetches :: "bool list"
  logged :: "log_entry list"
  scheduled :: "(nat \<times> bool) list"
  added :: "Thermostat list list"
  services :: "(string \<times> string) list"

subsection \<open>Constants of the platform\<close>

definition STATE_HEAT :: string where
  \<comment> \<open>Modelled from the spec: the climate component's constants are imported, not defined,
      by the module; the spec names the normalized operations heat, cool and auto.\<close>
  "STATE_HEAT = ''heat''"

definition STATE_COOL :: string where
  \<comment> \<open>Modelled from the spec: see \<open>STATE_HEAT\<close>.\<close>
  "STATE_COOL = ''cool''"

definition STATE_AUTO :: string where
  \<comment> \<open>Modelled from the spec: see \<open>STATE_HEAT\<close>.\<close>
  "STATE_AUTO = ''auto''"

definition DOMAIN :: string where
  \<comment> \<open>Modelled from the spec: the climate component's domain, imported by the module.\<close>
  "DOMAIN = ''climate''"

definition ATTR_TARGET_TEMP_LOW :: string where
  \<comment> \<open>Modelled from the spec: the key of the low target in the options of setTemperature.\<close>
  "ATTR_TARGET_TEMP_LOW = ''target_temp_low''"

definition ATTR_TARGET_TEMP_HIGH :: string where
  \<comment> \<open>Modelled from the spec: the key of the high target in the options of setTemperature.\<close>
  "ATTR_TARGET_TEMP_HIGH = ''target_temp_high''"

definition ATTR_TEMPERATURE :: string where
  \<comment> \<open>Modelled from the spec: the key of the single target in the options of setTemperature.\<close>
  "ATTR_TEMPERATURE = ''temperature''"

definition SERVICE_SET_FAN_MIN_ON_TIME :: string where
  "SERVICE_SET_FAN_MIN_ON_TIME = ''ecobee_set_fan_min_on_time''"

definition SERVICE_RESUME_PROGRAM :: string where
  "SERVICE_RESUME_PROGRAM = ''ecobee_resume_program''"

subsection \<open>Python's built-ins\<close>

text \<open>
  \<^verbatim>\<open>int(x)\<close> on a number truncates toward zero. A finite float is the rational it
  denotes, and \<^verbatim>\<open>n / 10\<close> is taken exactly: for an integer \<open>n\<close> of magnitude below \<open>2^53\<close>
  the double nearest to the quotient truncates to the same integer.
\<close>

definition py_int :: "rat \<Rightarrow> int" where
  "py_int q = (if 0 \<le> q then \<lfloor>q\<rfloor> else \<lceil>q\<rceil>)"

text \<open>\<^verbatim>\<open>any(p(x) for x in xs)\<close>: the elements in order, stopping at the first true one or
  at the first exception.\<close>

fun py_any :: "('a \<Rightarrow> error + bool) \<Rightarrow> 'a list \<Rightarrow> error + bool" where
  "py_any p [] = Inr False"
| "py_any p (x # xs) =
     (case p x of
        Inl e \<Rightarrow> Inl e
      | Inr b \<Rightarrow> if b then Inr True else py_any p xs)"

text \<open>\<^verbatim>\<open>str(n)\<close> of an integer: its decimal digits, with a minus sign below zero.\<close>

definition digit_char :: "nat \<Rightarrow> char" where
  "digit_char d = ''0123456789'' ! (d mod 10)"

function str_nat :: "nat \<Rightarrow> string" where
  "str_nat n = (if n < 10 then [digit_char n] else str_nat (n div 10) @ [digit_char n])"
  by pat_completeness auto
termination
  by (relation "measure id") auto

definition str_int :: "int \<Rightarrow> string" where
  "str_int i = (if i < 0 then CHR ''-'' # str_nat (nat (- i)) else str_nat (nat i))"

text \<open>\<^verbatim>\<open>str(b).lower()\<close> of a boolean.\<close>

definition str_bool :: "bool \<Rightarrow> string" where
  "str_bool b = (if b then ''True'' else ''False'')"

definition lower_char :: "char \<Rightarrow> char" where
  "lower_char c =
     (case map_of (zip ''ABCDEFGHIJKLMNOPQRSTUVWXYZ'' ''abcdefghijklmnopqrstuvwxyz'') c of
        None \<Rightarrow> c
      | Some l \<Rightarrow> l)"

definition lower :: "string \<Rightarrow> string" where
  "lower s = map lower_char s"

section \<open>The class Thermostat: properties\<close>

definition operation_mode :: "Thermostat \<Rightarrow> string" where
  "operation_mode self = hvacMode (settings (thermostat self))"

definition current_operation :: "Thermostat \<Rightarrow> string" where
  "current_operation self =
     (if operation_mode self = ''auxHeatOnly'' \<or> operation_mode self = ''heatPump''
      then STATE_HEAT
      else operation_mode self)"

definition current_temperature :: "Thermostat \<Rightarrow> rat" where
  "current_temperature self = of_int (actualTemperature (runtime (thermostat self))) / 10"




text \<open>The tests of one event inside the three \<^verbatim>\<open>any(...)\<close>: \<^verbatim>\<open>or\<close> reads the climate
  reference first, and the type only when the reference is not the one looked for.\<close>

definition temp_hold_event :: "event \<Rightarrow> error + bool" where
  "temp_hold_event e = Inr (ev_type e = ''hold'' \<and> running e)"

definition away_event :: "event \<Rightarrow> error + bool" where
  "away_event e =
     (case holdClimateRef e of
        None \<Rightarrow> Inl (KeyError ''holdClimateRef'')
      | Some r \<Rightarrow> Inr (r = ''away'' \<or> ev_type e = ''autoAway''))"

definition home_event :: "event \<Rightarrow> error + bool" where
  "home_event e =
     (case holdClimateRef e of
        None \<Rightarrow> Inl (KeyError ''holdClimateRef'')
      | Some r \<Rightarrow> Inr (r = ''home'' \<or> ev_type e = ''autoHome''))"

definition is_temp_hold_on :: "Thermostat \<Rightarrow> error + bool" where
  "is_temp_hold_on self = py_any temp_hold_event (events (thermostat self))"

definition is_away_mode_on :: "Thermostat \<Rightarrow> error + bool" where
  "is_away_mode_on self = py_any away_event (events (thermostat self))"

definition is_home_mode_on :: "Thermostat \<Rightarrow> error + bool" where
  "is_home_mode_on self = py_any home_event (events (thermostat self))"

definition current_hold_mode :: "Thermostat \<Rightarrow> error + string option" where
  "current_hold_mode self =
     (case is_away_mode_on self of
        Inl e \<Rightarrow> Inl e
      | Inr away \<Rightarrow>
          if away then Inr (Some ''away'')
          else (case is_home_mode_on self of
             Inl e \<Rightarrow> Inl e
           | Inr home \<Rightarrow>
               if home then Inr (Some ''home'')
               else (case is_temp_hold_on self of
                  Inl e \<Rightarrow> Inl e
                | Inr temp \<Rightarrow> if temp then Inr (Some ''temp'') else Inr None)))"

definition hold_preference :: "Thermostat \<Rightarrow> string" where
  "hold_preference self =
     (let default = holdAction (settings (thermostat self)) in
      if default = ''nextTransition'' then default
      else if default = ''indefinite'' then default
      else ''nextTransition'')"

section \<open>The collaborators\<close>

definition vendor :: "api_call \<Rightarrow> world \<Rightarrow> world" where
  \<comment> \<open>Modelled from the spec: the vendor client is an opaque network service; a command
      method of it takes the request, and here the request is recorded.\<close>
  "vendor c w = w\<lparr>calls := calls w @ [c]\<rparr>"

definition get_thermostat :: "world \<Rightarrow> nat \<Rightarrow> error + snapshot" where
  \<comment> \<open>Modelled from the spec: \<open>getThermostat(index)\<close> gives the snapshot at the index in the
      client's cache; an index outside the cache is Python's \<open>IndexError\<close>.\<close>
  "get_thermostat w i =
     (if i < length (thermostats w) then Inr (thermostats w ! i) else Inl IndexError)"


definition logger :: "log_entry \<Rightarrow> world \<Rightarrow> world" where
  "logger l w = w\<lparr>logged := logged w @ [l]\<rparr>"

definition schedule_update_ha_state :: "Thermostat \<Rightarrow> bool \<Rightarrow> world \<Rightarrow> world" where
  \<comment> \<open>Modelled from the spec: the entity base class takes the request for a forced state
      refresh and push of this entity.\<close>
  "schedule_update_ha_state self force_refresh w =
     w\<lparr>scheduled := scheduled w @ [(thermostat_index self, force_refresh)]\<rparr>"

section \<open>The class Thermostat: constructor, refresh and commands\<close>

definition Thermostat_init :: "world \<Rightarrow> nat \<Rightarrow> bool \<Rightarrow> error + Thermostat" where
  "Thermostat_init w index h =
     (case get_thermostat w index of
        Inl e \<Rightarrow> Inl e
      | Inr t \<Rightarrow>
          Inr \<lparr>thermostat_index = index, thermostat = t, hold_temp = h,
               update_without_throttle = False, entity_id = None\<rparr>)"


definition turn_away_mode_on :: "Thermostat \<Rightarrow> world \<Rightarrow> outcome \<times> Thermostat \<times> world" where
  "turn_away_mode_on self w =
     (Returned, self\<lparr>update_without_throttle := True\<rparr>,
      vendor (Set_climate_hold (thermostat_index self) ''away'' (hold_preference self)) w)"

definition turn_home_mode_on :: "Thermostat \<Rightarrow> world \<Rightarrow> outcome \<times> Thermostat \<times> world" where
  "turn_home_mode_on self w =
     (Returned, self\<lparr>update_without_throttle := True\<rparr>,
      vendor (Set_climate_hold (thermostat_index self) ''home'' (hold_preference self)) w)"

definition set_auto_temp_hold :: "Thermostat \<Rightarrow> int \<Rightarrow> int \<Rightarrow> world
    \<Rightarrow> outcome \<times> Thermostat \<times> world" where
  "set_auto_temp_hold self heat_temp cool_temp w =
     (Returned, self\<lparr>update_without_throttle := True\<rparr>,
      logger (Log_debug ''Setting ecobee hold_temp to: heat=%s, is=%s, cool=%s, is=%s'')
        (vendor (Set_hold_temp (thermostat_index self) cool_temp heat_temp
           (hold_preference self)) w))"

text \<open>In \<^verbatim>\<open>set_temp_hold\<close> the two locals are bound in the branches for heat and for cool
  only; the call that follows reads \<^verbatim>\<open>cool_temp\<close> first.\<close>

definition set_temp_hold :: "Thermostat \<Rightarrow> int \<Rightarrow> world \<Rightarrow> outcome \<times> Thermostat \<times> world" where
  "set_temp_hold self temp w =
     (case (if current_operation self = STATE_HEAT then Some (temp, temp + 20)
            else if current_operation self = STATE_COOL then Some (temp - 20, temp)
            else None) of
        None \<Rightarrow> (Raised (UnboundLocalError ''cool_temp''), self, w)
      | Some (heat_temp, cool_temp) \<Rightarrow>
          (Returned, self\<lparr>update_without_throttle := True\<rparr>,
           logger (Log_debug ''Setting ecobee hold_temp to: low=%s, is=%s, cool=%s, is=%s'')
             (vendor (Set_hold_temp (thermostat_index self) cool_temp heat_temp
                (hold_preference self)) w)))"

definition set_hold_mode :: "Thermostat \<Rightarrow> string option \<Rightarrow> world
    \<Rightarrow> outcome \<times> Thermostat \<times> world" where
  "set_hold_mode self hold_mode w =
     (case current_hold_mode self of
        Inl e \<Rightarrow> (Raised e, self, w)
      | Inr hold \<Rightarrow>
          if hold = hold_mode then (Returned, self, w)
          else if hold_mode = Some ''away'' then turn_away_mode_on self w
          else if hold_mode = Some ''home'' then turn_home_mode_on self w
          else if hold_mode = Some ''temp''
          then set_temp_hold self (py_int (current_temperature self)) w
          else (Returned, self\<lparr>update_without_throttle := True\<rparr>,
                vendor (Resume_program (thermostat_index self) None) w))"

definition turn_away_mode_off :: "Thermostat \<Rightarrow> world \<Rightarrow> outcome \<times> Thermostat \<times> world" where
  "turn_away_mode_off self w = set_hold_mode self None w"

text \<open>The keyword arguments of \<^verbatim>\<open>set_temperature\<close>: \<^verbatim>\<open>kwargs.get(key)\<close> is \<open>None\<close> for a key
  that is missing and for one given as \<open>None\<close>.\<close>

definition set_temperature :: "Thermostat \<Rightarrow> (string \<rightharpoonup> rat) \<Rightarrow> world
    \<Rightarrow> outcome \<times> Thermostat \<times> world" where
  "set_temperature self kwargs w =
     (let low_temp = kwargs ATTR_TARGET_TEMP_LOW;
          high_temp = kwargs ATTR_TARGET_TEMP_HIGH;
          temp = kwargs ATTR_TEMPERATURE
      in if current_operation self = STATE_AUTO \<and> low_temp \<noteq> None \<and> high_temp \<noteq> None
         then set_auto_temp_hold self (py_int (the low_temp)) (py_int (the high_temp)) w
         else if temp \<noteq> None then set_temp_hold self (py_int (the temp)) w
         else (Returned, self,
               logger (Log_error ''Missing valid arguments for set_temperature in %s'') w))"


definition set_fan_min_on_time :: "Thermostat \<Rightarrow> string \<Rightarrow> world
    \<Rightarrow> outcome \<times> Thermostat \<times> world" where
  "set_fan_min_on_time self fan_min_on_time w =
     (Returned, self\<lparr>update_without_throttle := True\<rparr>,
      vendor (Set_fan_min_on_time (thermostat_index self) fan_min_on_time) w)"

definition resume_program :: "Thermostat \<Rightarrow> bool \<Rightarrow> world \<Rightarrow> outcome \<times> Thermostat \<times> world" where
  "resume_program self resume_all w =
     (Returned, self\<lparr>update_without_throttle := True\<rparr>,
      vendor (Resume_program (thermostat_index self) (Some (lower (str_bool resume_all)))) w)"

section \<open>Platform setup and the two platform services\<close>

text \<open>The list comprehension of \<^verbatim>\<open>setup_platform\<close>: one constructor call per index, in
  order; an exception of a constructor ends it.\<close>

fun build_devices :: "world \<Rightarrow> bool \<Rightarrow> nat list \<Rightarrow> error + Thermostat list" where
  "build_devices w h [] = Inr []"
| "build_devices w h (index # indices) =
     (case Thermostat_init w index h of
        Inl e \<Rightarrow> Inl e
      | Inr d \<Rightarrow>
          (case build_devices w h indices of
             Inl e \<Rightarrow> Inl e
           | Inr ds \<Rightarrow> Inr (d # ds)))"

text \<open>\<^verbatim>\<open>setup_platform\<close> returns nothing; the list \<^verbatim>\<open>devices\<close> lives on in the two service
  handlers it registers, and is the second component here. The discovery information is
  a dictionary or \<open>None\<close>. Reading the service descriptions from \<^verbatim>\<open>services.yaml\<close> is
  configuration plumbing and is left out.\<close>

definition setup_platform :: "(string \<rightharpoonup> bool) option \<Rightarrow> world
    \<Rightarrow> outcome \<times> Thermostat list \<times> world" where
  "setup_platform discovery_info w =
     (case discovery_info of
        None \<Rightarrow> (Returned, [], w)
      | Some info \<Rightarrow>
          (case info ''hold_temp'' of
             None \<Rightarrow> (Raised (KeyError ''hold_temp''), [], w)
           | Some h \<Rightarrow>
               (let w1 = logger (Log_info
                      ''Loading ecobee thermostat component with hold_temp set to %s'') w
                in case build_devices w1 h [0..<length (thermostats w1)] of
                     Inl e \<Rightarrow> (Raised e, [], w1)
                   | Inr devices \<Rightarrow>
                       (Returned, devices,
                        w1\<lparr>added := added w1 @ [devices],
                           services := services w1 @
                             [(DOMAIN, SERVICE_SET_FAN_MIN_ON_TIME),
                              (DOMAIN, SERVICE_RESUME_PROGRAM)]\<rparr>))))"

text \<open>
  The devices are objects shared by the list \<^verbatim>\<open>devices\<close> and the list of targets, so the
  targets are positions in \<^verbatim>\<open>devices\<close>. \<^verbatim>\<open>if entity_id:\<close> holds for a list that is given
  and not empty.
\<close>

definition target_thermostats :: "Thermostat list \<Rightarrow> string list option \<Rightarrow> nat list" where
  "target_thermostats devices ids =
     (case ids of
        None \<Rightarrow> [0..<length devices]
      | Some [] \<Rightarrow> [0..<length devices]
      | Some (x # xs) \<Rightarrow>
          filter (\<lambda>i. case entity_id (devices ! i) of
                        None \<Rightarrow> False
                      | Some e \<Rightarrow> e \<in> set (x # xs))
            [0..<length devices])"

text \<open>The loop over the targets: the body runs on each in turn, and an exception of the
  body ends the loop.\<close>

fun for_targets :: "(Thermostat \<Rightarrow> world \<Rightarrow> outcome \<times> Thermostat \<times> world) \<Rightarrow> nat list
    \<Rightarrow> Thermostat list \<Rightarrow> world \<Rightarrow> outcome \<times> Thermostat list \<times> world" where
  "for_targets body [] devices w = (Returned, devices, w)"
| "for_targets body (i # targets) devices w =
     (case body (devices ! i) w of
        (Returned, d, w') \<Rightarrow> for_targets body targets (devices[i := d]) w'
      | (Raised e, d, w') \<Rightarrow> (Raised e, devices[i := d], w'))"

definition fan_body :: "int \<Rightarrow> Thermostat \<Rightarrow> world \<Rightarrow> outcome \<times> Thermostat \<times> world" where
  "fan_body fan_min_on_time thermostat_obj w =
     (case set_fan_min_on_time thermostat_obj (str_int fan_min_on_time) w of
        (Returned, d, w') \<Rightarrow> (Returned, d, schedule_update_ha_state d True w')
      | (Raised e, d, w') \<Rightarrow> (Raised e, d, w'))"

definition fan_min_on_time_set_service :: "Thermostat list \<Rightarrow> string list option \<Rightarrow> int \<Rightarrow> world
    \<Rightarrow> outcome \<times> Thermostat list \<times> world" where
  "fan_min_on_time_set_service devices ids fan_min_on_time w =
     for_targets (fan_body fan_min_on_time) (target_thermostats devices ids) devices w"

definition resume_body :: "bool \<Rightarrow> Thermostat \<Rightarrow> world \<Rightarrow> outcome \<times> Thermostat \<times> world" where
  "resume_body resume_all thermostat_obj w =
     (case resume_program thermostat_obj resume_all w of
        (Returned, d, w') \<Rightarrow> (Returned, d, schedule_update_ha_state d True w')
      | (Raised e, d, w') \<Rightarrow> (Raised e, d, w'))"

definition resume_program_set_service :: "Thermostat list \<Rightarrow> string list option \<Rightarrow> bool \<Rightarrow> world
    \<Rightarrow> outcome \<times> Thermostat list \<times> world" where
  "resume_program_set_service devices ids resume_all w =
     for_targets (resume_body resume_all) (target_thermostats devices ids) devices w"

section \<open>What the readings, the setup and the services are compared with\<close>


text \<open>The object the constructor builds for an index inside the client's cache: the
  snapshot at the index, the flag false, no entity id yet.\<close>

definition constructed :: "world \<Rightarrow> bool \<Rightarrow> nat \<Rightarrow> Thermostat" where
  "constructed w h index =
     \<lparr>thermostat_index = index, thermostat = thermostats w ! index, hold_temp = h,
      update_without_throttle = False, entity_id = None\<rparr>"

text \<open>The targets of a platform service, as a property of a device: every device when
  no entity ids are given or the list of them is empty, otherwise the devices whose entity
  id is in the list.\<close>

definition selected :: "string list option \<Rightarrow> Thermostat \<Rightarrow> bool" where
  "selected ids d =
     (case ids of
        None \<Rightarrow> True
      | Some l \<Rightarrow> l = [] \<or> (\<exists>e\<in>set l. entity_id d = Some e))"

section \<open>Sample data\<close>

text \<open>A snapshot with a given operation mode, hold action and event list, a thermostat
  object on it and a service holding it; the theorems below are instantiated on them.\<close>

definition sample_snapshot :: "string \<Rightarrow> string \<Rightarrow> event list \<Rightarrow> snapshot" where
  "sample_snapshot mode action evs =
     \<lparr>name = ''Hall'',
      runtime = \<lparr>actualTemperature = 725, desiredHeat = 687, desiredCool = 781\<rparr>,
      settings = \<lparr>hvacMode = mode, holdAction = action\<rparr>,
      events = evs\<rparr>"

definition sample_thermostat :: "string \<Rightarrow> string \<Rightarrow> event list \<Rightarrow> Thermostat" where
  "sample_thermostat mode action evs =
     \<lparr>thermostat_index = 0, thermostat = sample_snapshot mode action evs, hold_temp = False,
      update_without_throttle = False, entity_id = Some ''climate.hall''\<rparr>"

definition sample_world :: world where
  "sample_world =
     \<lparr>thermostats = [sample_snapshot ''heat'' ''askMe'' []], calls = [], fetches = [],
      logged = [], scheduled = [], added = [], services = []\<rparr>"


text \<open>A running hold event with the climate reference \<open>r\<close>.\<close>

definition hold_event :: "string \<Rightarrow> event" where
  "hold_event r = \<lparr>ev_type = ''hold'', running = True, holdClimateRef = Some r\<rparr>"

section \<open>The read model\<close>


text \<open>
  Claim C8. For every snapshot, \<^verbatim>\<open>current_operation\<close> is \<^verbatim>\<open>heat\<close> when the raw
  \<^verbatim>\<open>settings.hvacMode\<close> is \<^verbatim>\<open>auxHeatOnly\<close> or \<^verbatim>\<open>heatPump\<close>, and is the raw value itself for
  every other string.
\<close>

theorem current_operation_normalizes:
  "current_operation self =
     (if hvacMode (settings (thermostat self)) = ''auxHeatOnly''
         \<or> hvacMode (settings (thermostat self)) = ''heatPump''
      then ''heat''
      else hvacMode (settings (thermostat self)))"
  by (simp add: current_operation_def operation_mode_def STATE_HEAT_def)

theorem current_operation_normalizes_witness:
  "current_operation (sample_thermostat ''auxHeatOnly'' ''askMe'' []) = ''heat''
   \<and> current_operation (sample_thermostat ''heatPump'' ''askMe'' []) = ''heat''
   \<and> current_operation (sample_thermostat ''off'' ''askMe'' []) = ''off''
   \<and> current_operation (sample_thermostat ''idle'' ''askMe'' []) = ''idle''"
  using current_operation_normalizes [of "sample_thermostat ''auxHeatOnly'' ''askMe'' []"]
    current_operation_normalizes [of "sample_thermostat ''heatPump'' ''askMe'' []"]
    current_operation_normalizes [of "sample_thermostat ''off'' ''askMe'' []"]
    current_operation_normalizes [of "sample_thermostat ''idle'' ''askMe'' []"]
  by (simp add: sample_thermostat_def sample_snapshot_def)

text \<open>
  Claim C9. \<^verbatim>\<open>hold_preference\<close> returns the configured \<^verbatim>\<open>settings.holdAction\<close> unchanged
  when it is \<^verbatim>\<open>nextTransition\<close> or \<^verbatim>\<open>indefinite\<close>, and \<^verbatim>\<open>nextTransition\<close> for every other
  value.
\<close>

theorem hold_preference_resolves:
  "hold_preference self =
     (if holdAction (settings (thermostat self)) = ''nextTransition''
         \<or> holdAction (settings (thermostat self)) = ''indefinite''
      then holdAction (settings (thermostat self))
      else ''nextTransition'')"
  by (simp add: hold_preference_def Let_def)

theorem hold_preference_resolves_witness:
  "hold_preference (sample_thermostat ''heat'' ''askMe'' []) = ''nextTransition''
   \<and> hold_preference (sample_thermostat ''heat'' ''useEndTime4hour'' []) = ''nextTransition''
   \<and> hold_preference (sample_thermostat ''heat'' ''useEndTime2hour'' []) = ''nextTransition''
   \<and> hold_preference (sample_thermostat ''heat'' ''indefinite'' []) = ''indefinite''
   \<and> hold_preference (sample_thermostat ''heat'' ''nextTransition'' []) = ''nextTransition''"
  using hold_preference_resolves [of "sample_thermostat ''heat'' ''askMe'' []"]
    hold_preference_resolves [of "sample_thermostat ''heat'' ''useEndTime4hour'' []"]
    hold_preference_resolves [of "sample_thermostat ''heat'' ''useEndTime2hour'' []"]
    hold_preference_resolves [of "sample_thermostat ''heat'' ''indefinite'' []"]
    hold_preference_resolves [of "sample_thermostat ''heat'' ''nextTransition'' []"]
  by (simp add: sample_thermostat_def sample_snapshot_def)




subsection \<open>Hold modes\<close>








section \<open>The commands\<close>

text \<open>
  Claim C6. For every integer \<open>temp\<close>, \<^verbatim>\<open>set_temp_hold(temp)\<close> under the operation \<^verbatim>\<open>heat\<close>
  sends exactly one request to the vendor, a setpoint hold with heat temperature \<open>temp\<close>
  and cool temperature \<open>temp + 20\<close>; under \<^verbatim>\<open>cool\<close> the heat temperature is \<open>temp - 20\<close> and
  the cool temperature \<open>temp\<close>. The request carries the resolved hold preference.
  (\<open>Set_hold_temp\<close> lists the index, the cool temperature, the heat temperature and the
  preference, as the call does.)
\<close>

theorem set_temp_hold_band:
  "(current_operation self = ''heat'' \<longrightarrow>
      (case set_temp_hold self temp w of
         (r, self', w') \<Rightarrow>
           r = Returned
           \<and> calls w' = calls w @
               [Set_hold_temp (thermostat_index self) (temp + 20) temp (hold_preference self)]))
   \<and> (current_operation self = ''cool'' \<longrightarrow>
      (case set_temp_hold self temp w of
         (r, self', w') \<Rightarrow>
           r = Returned
           \<and> calls w' = calls w @
               [Set_hold_temp (thermostat_index self) temp (temp - 20) (hold_preference self)]))"
  by (simp add: set_temp_hold_def STATE_HEAT_def STATE_COOL_def vendor_def logger_def)

theorem set_temp_hold_band_witness:
  "current_operation (sample_thermostat ''heat'' ''askMe'' []) = ''heat''
   \<and> calls (snd (snd (set_temp_hold (sample_thermostat ''heat'' ''askMe'' []) 70 sample_world)))
       = [Set_hold_temp 0 90 70 ''nextTransition'']
   \<and> current_operation (sample_thermostat ''cool'' ''indefinite'' []) = ''cool''
   \<and> calls (snd (snd (set_temp_hold (sample_thermostat ''cool'' ''indefinite'' []) 70
        sample_world)))
       = [Set_hold_temp 0 70 50 ''indefinite'']"
  using set_temp_hold_band [where self = "sample_thermostat ''heat'' ''askMe'' []" and temp = 70
      and w = sample_world]
    set_temp_hold_band [where self = "sample_thermostat ''cool'' ''indefinite'' []" and temp = 70
      and w = sample_world]
  by (simp add: case_prod_beta sample_thermostat_def sample_snapshot_def sample_world_def
      current_operation_def operation_mode_def hold_preference_def)

text \<open>
  Claim C7. When \<^verbatim>\<open>current_operation\<close> is neither \<^verbatim>\<open>heat\<close> nor \<^verbatim>\<open>cool\<close>, \<^verbatim>\<open>set_temp_hold\<close> raises
  on the unbound local before any request is sent and with the flag as it was: the object
  and the service are left unchanged. It returns exactly when the operation is \<^verbatim>\<open>heat\<close> or
  \<^verbatim>\<open>cool\<close>. \<^verbatim>\<open>set_temperature\<close> with a single target and no complete low/high pair runs into
  this under the operation \<^verbatim>\<open>auto\<close>.
\<close>

theorem set_temp_hold_unbound:
  "(current_operation self \<noteq> ''heat'' \<and> current_operation self \<noteq> ''cool'' \<longrightarrow>
      set_temp_hold self temp w = (Raised (UnboundLocalError ''cool_temp''), self, w))
   \<and> ((\<exists>self' w'. set_temp_hold self temp w = (Returned, self', w'))
        \<longleftrightarrow> current_operation self = ''heat'' \<or> current_operation self = ''cool'')
   \<and> (current_operation self = ''auto''
        \<and> (kwargs ATTR_TARGET_TEMP_LOW = None \<or> kwargs ATTR_TARGET_TEMP_HIGH = None)
        \<and> kwargs ATTR_TEMPERATURE = Some t \<longrightarrow>
      set_temperature self kwargs w = (Raised (UnboundLocalError ''cool_temp''), self, w))"
  by (auto simp add: set_temp_hold_def set_temperature_def STATE_HEAT_def STATE_COOL_def
      STATE_AUTO_def Let_def)

theorem set_temp_hold_unbound_witness:
  "current_operation (sample_thermostat ''auto'' ''askMe'' []) = ''auto''
   \<and> set_temp_hold (sample_thermostat ''auto'' ''askMe'' []) 70 sample_world
       = (Raised (UnboundLocalError ''cool_temp''), sample_thermostat ''auto'' ''askMe'' [],
          sample_world)
   \<and> current_operation (sample_thermostat ''off'' ''askMe'' []) = ''off''
   \<and> set_temp_hold (sample_thermostat ''off'' ''askMe'' []) 70 sample_world
       = (Raised (UnboundLocalError ''cool_temp''), sample_thermostat ''off'' ''askMe'' [],
          sample_world)
   \<and> set_temperature (sample_thermostat ''auto'' ''askMe'' []) [ATTR_TEMPERATURE \<mapsto> 70]
        sample_world
       = (Raised (UnboundLocalError ''cool_temp''), sample_thermostat ''auto'' ''askMe'' [],
          sample_world)"
  using set_temp_hold_unbound [where self = "sample_thermostat ''auto'' ''askMe'' []" and temp = 70
      and w = sample_world and kwargs = "[ATTR_TEMPERATURE \<mapsto> 70]" and t = 70]
    set_temp_hold_unbound [where self = "sample_thermostat ''off'' ''askMe'' []" and temp = 70
      and w = sample_world]
  by (simp add: sample_thermostat_def sample_snapshot_def current_operation_def
      operation_mode_def ATTR_TEMPERATURE_def ATTR_TARGET_TEMP_LOW_def)

text \<open>
  Claim C5. When the target equals the hold mode derived from the snapshot,
  \<^verbatim>\<open>set_hold_mode(target)\<close> returns at once: no request is sent, and the object and the
  service are as before.
\<close>

theorem set_hold_mode_idempotent:
  "current_hold_mode self = Inr target \<Longrightarrow> set_hold_mode self target w = (Returned, self, w)"
  by (simp add: set_hold_mode_def)

theorem set_hold_mode_idempotent_witness:
  "current_hold_mode (sample_thermostat ''heat'' ''askMe'' [hold_event ''away''])
     = Inr (Some ''away'')
   \<and> set_hold_mode (sample_thermostat ''heat'' ''askMe'' [hold_event ''away'']) (Some ''away'')
        sample_world
     = (Returned, sample_thermostat ''heat'' ''askMe'' [hold_event ''away''], sample_world)
   \<and> calls (snd (snd (set_hold_mode (sample_thermostat ''heat'' ''askMe'' [hold_event ''away''])
        (Some ''away'') sample_world))) = []"
proof -
  have h: "current_hold_mode (sample_thermostat ''heat'' ''askMe'' [hold_event ''away''])
     = Inr (Some ''away'')"
    by (simp add: current_hold_mode_def is_away_mode_on_def away_event_def
        sample_thermostat_def sample_snapshot_def hold_event_def)
  from set_hold_mode_idempotent [OF h, of sample_world] h show ?thesis
    by (simp add: sample_world_def)
qed

lemma py_int_of_int: "py_int (of_int n) = n"
  by (simp add: py_int_def)

lemma py_int_truncates:
  "(0 \<le> q \<longrightarrow> 0 \<le> py_int q \<and> of_int (py_int q) \<le> q \<and> q < of_int (py_int q) + 1)
   \<and> (q < 0 \<longrightarrow> py_int q \<le> 0 \<and> q \<le> of_int (py_int q) \<and> of_int (py_int q) - 1 < q)"
  unfolding py_int_def by (simp add: ceiling_le_iff) linarith

text \<open>
  Claim C3. \<^verbatim>\<open>set_temperature\<close> under the operation \<^verbatim>\<open>auto\<close> with both a low and a high
  target is one call of \<^verbatim>\<open>set_auto_temp_hold\<close> on the truncated low and high values, which
  sends one setpoint request. Otherwise, with a single target, it is one call of
  \<^verbatim>\<open>set_temp_hold\<close> on the truncated target. Otherwise it logs the validation error and
  returns: no request is sent, and the object, its snapshot and flag included, is as
  before; of the service only the log has grown.
\<close>

theorem set_temperature_dispatch:
  "(current_operation self = ''auto'' \<and> kwargs ATTR_TARGET_TEMP_LOW = Some low
      \<and> kwargs ATTR_TARGET_TEMP_HIGH = Some high \<longrightarrow>
      set_temperature self kwargs w = set_auto_temp_hold self (py_int low) (py_int high) w
      \<and> fst (set_temperature self kwargs w) = Returned
      \<and> calls (snd (snd (set_temperature self kwargs w))) = calls w @
          [Set_hold_temp (thermostat_index self) (py_int high) (py_int low)
             (hold_preference self)])
   \<and> (\<not> (current_operation self = ''auto'' \<and> kwargs ATTR_TARGET_TEMP_LOW \<noteq> None
           \<and> kwargs ATTR_TARGET_TEMP_HIGH \<noteq> None)
      \<and> kwargs ATTR_TEMPERATURE = Some t \<longrightarrow>
      set_temperature self kwargs w = set_temp_hold self (py_int t) w)
   \<and> (\<not> (current_operation self = ''auto'' \<and> kwargs ATTR_TARGET_TEMP_LOW \<noteq> None
           \<and> kwargs ATTR_TARGET_TEMP_HIGH \<noteq> None)
      \<and> kwargs ATTR_TEMPERATURE = None \<longrightarrow>
      set_temperature self kwargs w =
        (Returned, self,
         w\<lparr>logged := logged w @
             [Log_error ''Missing valid arguments for set_temperature in %s'']\<rparr>)
      \<and> calls (snd (snd (set_temperature self kwargs w))) = calls w)"
  by (auto simp add: set_temperature_def set_auto_temp_hold_def STATE_AUTO_def Let_def
      vendor_def logger_def)

lemma py_int_samples:
  "py_int (121 / 2) = 60" "py_int (803 / 10) = 80" "py_int (- 3 / 2) = - 1"
  by code_simp+

theorem set_temperature_dispatch_witness:
  "set_temperature (sample_thermostat ''auto'' ''askMe'' [])
      [ATTR_TARGET_TEMP_LOW \<mapsto> 121 / 2, ATTR_TARGET_TEMP_HIGH \<mapsto> 803 / 10] sample_world
     = set_auto_temp_hold (sample_thermostat ''auto'' ''askMe'' []) 60 80 sample_world
   \<and> calls (snd (snd (set_temperature (sample_thermostat ''auto'' ''askMe'' [])
      [ATTR_TARGET_TEMP_LOW \<mapsto> 121 / 2, ATTR_TARGET_TEMP_HIGH \<mapsto> 803 / 10] sample_world)))
     = [Set_hold_temp 0 80 60 ''nextTransition'']
   \<and> set_temperature (sample_thermostat ''heat'' ''askMe'' [])
      [ATTR_TARGET_TEMP_LOW \<mapsto> 60, ATTR_TARGET_TEMP_HIGH \<mapsto> 80, ATTR_TEMPERATURE \<mapsto> - 3 / 2]
      sample_world
     = set_temp_hold (sample_thermostat ''heat'' ''askMe'' []) (- 1) sample_world
   \<and> set_temperature (sample_thermostat ''heat'' ''askMe'' []) Map.empty sample_world
     = (Returned, sample_thermostat ''heat'' ''askMe'' [],
        sample_world\<lparr>logged :=
          [Log_error ''Missing valid arguments for set_temperature in %s'']\<rparr>)
   \<and> calls (snd (snd (set_temperature (sample_thermostat ''heat'' ''askMe'' []) Map.empty
        sample_world))) = []"
  using set_temperature_dispatch [where self = "sample_thermostat ''auto'' ''askMe'' []"
      and kwargs = "[ATTR_TARGET_TEMP_LOW \<mapsto> 121 / 2, ATTR_TARGET_TEMP_HIGH \<mapsto> 803 / 10]"
      and low = "121 / 2" and high = "803 / 10" and w = sample_world]
    set_temperature_dispatch [where self = "sample_thermostat ''heat'' ''askMe'' []"
      and kwargs = "[ATTR_TARGET_TEMP_LOW \<mapsto> 60, ATTR_TARGET_TEMP_HIGH \<mapsto> 80,
         ATTR_TEMPERATURE \<mapsto> - 3 / 2]"
      and t = "- 3 / 2" and w = sample_world]
    set_temperature_dispatch [where self = "sample_thermostat ''heat'' ''askMe'' []"
      and kwargs = Map.empty and w = sample_world]
    py_int_samples
  by (simp add: sample_thermostat_def sample_snapshot_def sample_world_def
      current_operation_def operation_mode_def hold_preference_def
      ATTR_TEMPERATURE_def ATTR_TARGET_TEMP_LOW_def ATTR_TARGET_TEMP_HIGH_def
      set_auto_temp_hold_def set_temp_hold_def vendor_def logger_def STATE_HEAT_def)

section \<open>The deferred refresh\<close>









section \<open>Setup and services\<close>

lemma build_devices_in_range:
  "\<forall>i\<in>set indices. i < length (thermostats w) \<Longrightarrow>
     build_devices w h indices = Inr (map (constructed w h) indices)"
  by (induction indices) (simp_all add: Thermostat_init_def get_thermostat_def constructed_def)

lemma setup_platform_discovered:
  assumes "info ''hold_temp'' = Some h"
  shows "setup_platform (Some info) w =
    (Returned, map (constructed w h) [0..<length (thermostats w)],
     w\<lparr>logged := logged w @
          [Log_info ''Loading ecobee thermostat component with hold_temp set to %s''],
        added := added w @ [map (constructed w h) [0..<length (thermostats w)]],
        services := services w @
          [(DOMAIN, SERVICE_SET_FAN_MIN_ON_TIME), (DOMAIN, SERVICE_RESUME_PROGRAM)]\<rparr>)"
proof -
  let ?w1 = "logger (Log_info
      ''Loading ecobee thermostat component with hold_temp set to %s'') w"
  have same: "thermostats ?w1 = thermostats w"
    by (simp add: logger_def)
  have "build_devices ?w1 h [0..<length (thermostats ?w1)]
      = Inr (map (constructed ?w1 h) [0..<length (thermostats ?w1)])"
    by (rule build_devices_in_range) simp
  moreover have "constructed ?w1 h = constructed w h"
    by (rule ext) (simp add: constructed_def same)
  ultimately have "build_devices ?w1 h [0..<length (thermostats ?w1)]
      = Inr (map (constructed w h) [0..<length (thermostats w)])"
    by (simp add: same)
  with assms show ?thesis
    by (simp add: setup_platform_def Let_def) (simp add: logger_def)
qed

lemma target_thermostats_selected:
  "target_thermostats devices ids
     = filter (\<lambda>i. selected ids (devices ! i)) [0..<length devices]"
proof (cases ids)
  case None
  then show ?thesis
    by (simp add: target_thermostats_def selected_def)
next
  case (Some l)
  show ?thesis
  proof (cases l)
    case Nil
    with Some show ?thesis
      by (simp add: target_thermostats_def selected_def)
  next
    case (Cons x xs)
    have "(\<lambda>i. case entity_id (devices ! i) of None \<Rightarrow> False | Some e \<Rightarrow> e \<in> set (x # xs))
        = (\<lambda>i. selected ids (devices ! i))"
      by (rule ext) (auto simp add: selected_def Some Cons split: option.splits)
    then show ?thesis
      by (simp add: target_thermostats_def Some Cons)
  qed
qed

lemma map_filter_positions:
  "map (\<lambda>i. F (xs ! i)) (filter (\<lambda>i. P (xs ! i)) [0..<length xs]) = map F (filter P xs)"
proof -
  have "map F (filter P xs) = map F (filter P (map (nth xs) [0..<length xs]))"
    by (simp add: map_nth)
  also have "\<dots> = map F (map (nth xs) (filter (P \<circ> nth xs) [0..<length xs]))"
    by (simp only: filter_map)
  finally show ?thesis
    by (simp add: comp_def)
qed

text \<open>The loop of a service whose body sends one request naming the device's index, sets
  the flag and asks the platform for a refresh.\<close>

lemma for_targets_commands:
  assumes body: "\<And>d w. body d w =
      (Returned, d\<lparr>update_without_throttle := True\<rparr>,
       w\<lparr>calls := calls w @ [c (thermostat_index d)],
         scheduled := scheduled w @ [(thermostat_index d, True)]\<rparr>)"
  shows "\<forall>i\<in>set ps. i < length devices \<Longrightarrow>
    for_targets body ps devices w =
      (Returned,
       map (\<lambda>j. if j \<in> set ps then (devices ! j)\<lparr>update_without_throttle := True\<rparr>
                 else devices ! j) [0..<length devices],
       w\<lparr>calls := calls w @ map (\<lambda>i. c (thermostat_index (devices ! i))) ps,
         scheduled := scheduled w @ map (\<lambda>i. (thermostat_index (devices ! i), True)) ps\<rparr>)"
proof (induction ps arbitrary: devices w)
  case Nil
  then show ?case
    by (simp add: map_nth)
next
  case (Cons i ps)
  let ?devices = "devices[i := (devices ! i)\<lparr>update_without_throttle := True\<rparr>]"
  let ?w = "w\<lparr>calls := calls w @ [c (thermostat_index (devices ! i))],
      scheduled := scheduled w @ [(thermostat_index (devices ! i), True)]\<rparr>"
  from Cons.prems have range: "i < length devices" "\<forall>j\<in>set ps. j < length ?devices"
    by simp_all
  have index: "thermostat_index (?devices ! j) = thermostat_index (devices ! j)"
    if "j < length devices" for j
    using that by (cases "j = i") simp_all
  have "map (\<lambda>j. c (thermostat_index (?devices ! j))) ps
      = map (\<lambda>j. c (thermostat_index (devices ! j))) ps"
    using Cons.prems by (intro map_cong) (simp_all add: index)
  moreover have "map (\<lambda>j. (thermostat_index (?devices ! j), True)) ps
      = map (\<lambda>j. (thermostat_index (devices ! j), True)) ps"
    using Cons.prems by (intro map_cong) (simp_all add: index)
  moreover have "map (\<lambda>j. if j \<in> set ps then (?devices ! j)\<lparr>update_without_throttle := True\<rparr>
                 else ?devices ! j) [0..<length ?devices]
      = map (\<lambda>j. if j \<in> set (i # ps) then (devices ! j)\<lparr>update_without_throttle := True\<rparr>
                 else devices ! j) [0..<length devices]"
    using range(1) by (auto simp add: nth_list_update)
  ultimately show ?case
    using Cons.IH [OF range(2), of ?w] by (simp add: body)
qed

lemma service_loop:
  assumes body: "\<And>d w. body d w =
      (Returned, d\<lparr>update_without_throttle := True\<rparr>,
       w\<lparr>calls := calls w @ [c (thermostat_index d)],
         scheduled := scheduled w @ [(thermostat_index d, True)]\<rparr>)"
  shows "for_targets body (target_thermostats devices ids) devices w =
      (Returned,
       map (\<lambda>d. if selected ids d then d\<lparr>update_without_throttle := True\<rparr> else d) devices,
       w\<lparr>calls := calls w @ map (\<lambda>d. c (thermostat_index d)) (filter (selected ids) devices),
         scheduled := scheduled w @
           map (\<lambda>d. (thermostat_index d, True)) (filter (selected ids) devices)\<rparr>)"
proof -
  let ?ps = "filter (\<lambda>i. selected ids (devices ! i)) [0..<length devices]"
  have ps: "target_thermostats devices ids = ?ps"
    by (rule target_thermostats_selected)
  have run: "for_targets body ?ps devices w =
      (Returned,
       map (\<lambda>j. if j \<in> set ?ps then (devices ! j)\<lparr>update_without_throttle := True\<rparr>
                 else devices ! j) [0..<length devices],
       w\<lparr>calls := calls w @ map (\<lambda>i. c (thermostat_index (devices ! i))) ?ps,
         scheduled := scheduled w @ map (\<lambda>i. (thermostat_index (devices ! i), True)) ?ps\<rparr>)"
    by (rule for_targets_commands [OF body]) simp
  have devs: "map (\<lambda>j. if j \<in> set ?ps then (devices ! j)\<lparr>update_without_throttle := True\<rparr>
                 else devices ! j) [0..<length devices]
      = map (\<lambda>d. if selected ids d then d\<lparr>update_without_throttle := True\<rparr> else d) devices"
    by (rule nth_equalityI) simp_all
  have sent: "map (\<lambda>i. c (thermostat_index (devices ! i))) ?ps
      = map (\<lambda>d. c (thermostat_index d)) (filter (selected ids) devices)"
    by (rule map_filter_positions)
  have asked: "map (\<lambda>i. (thermostat_index (devices ! i), True)) ?ps
      = map (\<lambda>d. (thermostat_index d, True)) (filter (selected ids) devices)"
    by (rule map_filter_positions)
  show ?thesis
    by (simp only: ps run devs sent asked)
qed

lemma lower_str_bool: "lower (str_bool b) = (if b then ''true'' else ''false'')"
  by (simp add: lower_def str_bool_def lower_char_def)

lemma fan_body_effect:
  "fan_body minutes d w =
     (Returned, d\<lparr>update_without_throttle := True\<rparr>,
      w\<lparr>calls := calls w @ [Set_fan_min_on_time (thermostat_index d) (str_int minutes)],
        scheduled := scheduled w @ [(thermostat_index d, True)]\<rparr>)"
  by (simp add: fan_body_def set_fan_min_on_time_def vendor_def schedule_update_ha_state_def)

lemma resume_body_effect:
  "resume_body resume_all d w =
     (Returned, d\<lparr>update_without_throttle := True\<rparr>,
      w\<lparr>calls := calls w @
          [Resume_program (thermostat_index d) (Some (if resume_all then ''true'' else ''false''))],
        scheduled := scheduled w @ [(thermostat_index d, True)]\<rparr>)"
  by (simp add: resume_body_def resume_program_def vendor_def schedule_update_ha_state_def
      lower_str_bool)

text \<open>
  Claim C10, as amended. \<^verbatim>\<open>setup_platform\<close> without discovery information returns with
  nothing constructed. With discovery information that holds \<^verbatim>\<open>hold_temp\<close> it constructs one
  object per index of the client's thermostat list, in index order, hands the list to
  \<^verbatim>\<open>add_devices\<close> and registers the two services, sending nothing to the vendor; without
  that entry it raises \<^verbatim>\<open>KeyError\<close> before constructing anything. Each service runs its
  command, in the order of the device list, on the devices whose entity id is in the list
  of entity ids, or on all devices when the list is not given or is empty:
  \<^verbatim>\<open>set_fan_min_on_time\<close> with the decimal string of the minutes, \<^verbatim>\<open>resume_program\<close> with the
  resume-all flag (sent as \<^verbatim>\<open>true\<close> or \<^verbatim>\<open>false\<close>); the other devices are left as they were.
\<close>

theorem platform_setup_and_services:
  "setup_platform None w = (Returned, [], w)
   \<and> (info ''hold_temp'' = Some h \<longrightarrow>
        fst (setup_platform (Some info) w) = Returned
        \<and> fst (snd (setup_platform (Some info) w))
            = map (constructed w h) [0..<length (thermostats w)]
        \<and> added (snd (snd (setup_platform (Some info) w)))
            = added w @ [map (constructed w h) [0..<length (thermostats w)]]
        \<and> services (snd (snd (setup_platform (Some info) w)))
            = services w @ [(''climate'', ''ecobee_set_fan_min_on_time''),
                 (''climate'', ''ecobee_resume_program'')]
        \<and> calls (snd (snd (setup_platform (Some info) w))) = calls w)
   \<and> (info ''hold_temp'' = None \<longrightarrow>
        setup_platform (Some info) w = (Raised (KeyError ''hold_temp''), [], w))
   \<and> fan_min_on_time_set_service devices ids minutes w =
        (Returned,
         map (\<lambda>d. if selected ids d then d\<lparr>update_without_throttle := True\<rparr> else d) devices,
         w\<lparr>calls := calls w @
              map (\<lambda>d. Set_fan_min_on_time (thermostat_index d) (str_int minutes))
                (filter (selected ids) devices),
           scheduled := scheduled w @
              map (\<lambda>d. (thermostat_index d, True)) (filter (selected ids) devices)\<rparr>)
   \<and> resume_program_set_service devices ids resume_all w =
        (Returned,
         map (\<lambda>d. if selected ids d then d\<lparr>update_without_throttle := True\<rparr> else d) devices,
         w\<lparr>calls := calls w @
              map (\<lambda>d. Resume_program (thermostat_index d)
                     (Some (if resume_all then ''true'' else ''false'')))
                (filter (selected ids) devices),
           scheduled := scheduled w @
              map (\<lambda>d. (thermostat_index d, True)) (filter (selected ids) devices)\<rparr>)
   \<and> (selected ids d \<longleftrightarrow>
        ids = None \<or> ids = Some [] \<or> (\<exists>l e. ids = Some l \<and> e \<in> set l \<and> entity_id d = Some e))"
proof -
  have none: "setup_platform None w = (Returned, [], w)"
    by (simp add: setup_platform_def)
  have some: "info ''hold_temp'' = Some h \<longrightarrow>
        fst (setup_platform (Some info) w) = Returned
        \<and> fst (snd (setup_platform (Some info) w))
            = map (constructed w h) [0..<length (thermostats w)]
        \<and> added (snd (snd (setup_platform (Some info) w)))
            = added w @ [map (constructed w h) [0..<length (thermostats w)]]
        \<and> services (snd (snd (setup_platform (Some info) w)))
            = services w @ [(''climate'', ''ecobee_set_fan_min_on_time''),
                 (''climate'', ''ecobee_resume_program'')]
        \<and> calls (snd (snd (setup_platform (Some info) w))) = calls w"
    by (simp add: setup_platform_discovered DOMAIN_def SERVICE_SET_FAN_MIN_ON_TIME_def
        SERVICE_RESUME_PROGRAM_def)
  have missing: "info ''hold_temp'' = None \<longrightarrow>
        setup_platform (Some info) w = (Raised (KeyError ''hold_temp''), [], w)"
    by (simp add: setup_platform_def)
  have fan: "fan_min_on_time_set_service devices ids minutes w =
        (Returned,
         map (\<lambda>d. if selected ids d then d\<lparr>update_without_throttle := True\<rparr> else d) devices,
         w\<lparr>calls := calls w @
              map (\<lambda>d. Set_fan_min_on_time (thermostat_index d) (str_int minutes))
                (filter (selected ids) devices),
           scheduled := scheduled w @
              map (\<lambda>d. (thermostat_index d, True)) (filter (selected ids) devices)\<rparr>)"
    unfolding fan_min_on_time_set_service_def
    by (rule service_loop [where c = "\<lambda>i. Set_fan_min_on_time i (str_int minutes)"])
      (rule fan_body_effect)
  have resume: "resume_program_set_service devices ids resume_all w =
        (Returned,
         map (\<lambda>d. if selected ids d then d\<lparr>update_without_throttle := True\<rparr> else d) devices,
         w\<lparr>calls := calls w @
              map (\<lambda>d. Resume_program (thermostat_index d)
                     (Some (if resume_all then ''true'' else ''false'')))
                (filter (selected ids) devices),
           scheduled := scheduled w @
              map (\<lambda>d. (thermostat_index d, True)) (filter (selected ids) devices)\<rparr>)"
    unfolding resume_program_set_service_def
    by (rule service_loop
        [where c = "\<lambda>i. Resume_program i (Some (if resume_all then ''true'' else ''false''))"])
      (rule resume_body_effect)
  have sel: "selected ids d \<longleftrightarrow>
        ids = None \<or> ids = Some [] \<or> (\<exists>l e. ids = Some l \<and> e \<in> set l \<and> entity_id d = Some e)"
    by (auto simp add: selected_def split: option.splits)
  from none some missing fan resume sel show ?thesis
    by (intro conjI)
qed

theorem platform_setup_and_services_witness:
  "fst (snd (setup_platform (Some [''hold_temp'' \<mapsto> False]) sample_world))
     = [\<lparr>thermostat_index = 0, thermostat = sample_snapshot ''heat'' ''askMe'' [],
         hold_temp = False, update_without_throttle = False, entity_id = None\<rparr>]
   \<and> services (snd (snd (setup_platform (Some [''hold_temp'' \<mapsto> False]) sample_world)))
     = [(''climate'', ''ecobee_set_fan_min_on_time''), (''climate'', ''ecobee_resume_program'')]
   \<and> calls (snd (snd (fan_min_on_time_set_service
        [sample_thermostat ''heat'' ''askMe'' [],
         (sample_thermostat ''cool'' ''askMe'' [])
           \<lparr>thermostat_index := 1, entity_id := Some ''climate.loft''\<rparr>]
        (Some [''climate.loft'']) 15 sample_world)))
     = [Set_fan_min_on_time 1 ''15'']
   \<and> map update_without_throttle (fst (snd (fan_min_on_time_set_service
        [sample_thermostat ''heat'' ''askMe'' [],
         (sample_thermostat ''cool'' ''askMe'' [])
           \<lparr>thermostat_index := 1, entity_id := Some ''climate.loft''\<rparr>]
        (Some [''climate.loft'']) 15 sample_world)))
     = [False, True]
   \<and> calls (snd (snd (fan_min_on_time_set_service
        [sample_thermostat ''heat'' ''askMe'' [],
         (sample_thermostat ''cool'' ''askMe'' [])
           \<lparr>thermostat_index := 1, entity_id := Some ''climate.loft''\<rparr>]
        None 15 sample_world)))
     = [Set_fan_min_on_time 0 ''15'', Set_fan_min_on_time 1 ''15'']
   \<and> calls (snd (snd (resume_program_set_service
        [sample_thermostat ''heat'' ''askMe'' [],
         (sample_thermostat ''cool'' ''askMe'' [])
           \<lparr>thermostat_index := 1, entity_id := Some ''climate.loft''\<rparr>]
        (Some [''climate.hall'', ''climate.attic'']) True sample_world)))
     = [Resume_program 0 (Some ''true'')]"
proof -
  let ?A = "sample_thermostat ''heat'' ''askMe'' []"
  let ?B = "(sample_thermostat ''cool'' ''askMe'' [])
      \<lparr>thermostat_index := 1, entity_id := Some ''climate.loft''\<rparr>"
  have digits: "str_int 15 = ''15''"
    by (simp add: str_int_def digit_char_def)
  have info: "[''hold_temp'' \<mapsto> False] ''hold_temp'' = Some False"
    by simp
  note discovered = platform_setup_and_services [where info = "[''hold_temp'' \<mapsto> False]"
      and h = False and w = sample_world, THEN conjunct2, THEN conjunct1, rule_format, OF info]
  note loft = platform_setup_and_services [where devices = "[?A, ?B]"
      and ids = "Some [''climate.loft'']" and minutes = 15 and w = sample_world,
      THEN conjunct2, THEN conjunct2, THEN conjunct2, THEN conjunct1]
  note everyone = platform_setup_and_services [where devices = "[?A, ?B]"
      and ids = None and minutes = 15 and w = sample_world,
      THEN conjunct2, THEN conjunct2, THEN conjunct2, THEN conjunct1]
  note hall = platform_setup_and_services [where devices = "[?A, ?B]"
      and ids = "Some [''climate.hall'', ''climate.attic'']" and resume_all = True
      and w = sample_world,
      THEN conjunct2, THEN conjunct2, THEN conjunct2, THEN conjunct2, THEN conjunct1]
  have built: "fst (snd (setup_platform (Some [''hold_temp'' \<mapsto> False]) sample_world))
     = [\<lparr>thermostat_index = 0, thermostat = sample_snapshot ''heat'' ''askMe'' [],
         hold_temp = False, update_without_throttle = False, entity_id = None\<rparr>]"
    "services (snd (snd (setup_platform (Some [''hold_temp'' \<mapsto> False]) sample_world)))
     = [(''climate'', ''ecobee_set_fan_min_on_time''), (''climate'', ''ecobee_resume_program'')]"
    using discovered by (simp_all add: sample_world_def constructed_def)
  have fan_loft: "calls (snd (snd (fan_min_on_time_set_service [?A, ?B]
        (Some [''climate.loft'']) 15 sample_world))) = [Set_fan_min_on_time 1 ''15'']"
    "map update_without_throttle (fst (snd (fan_min_on_time_set_service [?A, ?B]
        (Some [''climate.loft'']) 15 sample_world))) = [False, True]"
    unfolding loft
    by (simp_all add: digits selected_def sample_thermostat_def sample_world_def)
  have fan_all: "calls (snd (snd (fan_min_on_time_set_service [?A, ?B] None 15 sample_world)))
     = [Set_fan_min_on_time 0 ''15'', Set_fan_min_on_time 1 ''15'']"
    unfolding everyone
    by (simp add: digits selected_def sample_thermostat_def sample_world_def)
  have resume_hall: "calls (snd (snd (resume_program_set_service [?A, ?B]
        (Some [''climate.hall'', ''climate.attic'']) True sample_world)))
     = [Resume_program 0 (Some ''true'')]"
    unfolding hall
    by (simp add: selected_def sample_thermostat_def sample_world_def)
  from built fan_loft fan_all resume_hall show ?thesis
    by simp
qed

text \<open>
  The claim as it is written fails for a list of entity ids that is given and empty: no
  device has its id in it, yet \<^verbatim>\<open>if entity_id:\<close> is false and the service runs on every
  device. And discovery information without \<^verbatim>\<open>hold_temp\<close> is not \<open>None\<close>, yet nothing is
  constructed: the lookup raises.
\<close>

theorem platform_setup_and_services_counterexample:
  "calls (snd (snd (fan_min_on_time_set_service [sample_thermostat ''heat'' ''askMe'' []]
        (Some []) 15 sample_world)))
     = [Set_fan_min_on_time 0 ''15'']
   \<and> entity_id (sample_thermostat ''heat'' ''askMe'' []) = Some ''climate.hall''
   \<and> ''climate.hall'' \<notin> set []
   \<and> setup_platform (Some Map.empty) sample_world
     = (Raised (KeyError ''hold_temp''), [], sample_world)"
  by (simp add: fan_min_on_time_set_service_def target_thermostats_def fan_body_def
      set_fan_min_on_time_def vendor_def schedule_update_ha_state_def setup_platform_def
      str_int_def digit_char_def sample_thermostat_def sample_world_def)

end
